theory Spec2Isabelle
  imports Complex_Main
begin

section \<open>The prediction obstacle container (modules/prediction/container/obstacles/obstacle.cc)\<close>

text \<open>
  A shallow embedding of class \<open>Obstacle\<close>. Conventions of the embedding:
  \<^item> a C++ \<open>double\<close> is a HOL \<open>real\<close> in the embedding of the class; the estimator is
    given a second time on doubles with their infinities, NaN and overflow, and the
    rounding of finite results stays outside both;
  \<^item> a C++ \<open>int\<close> is a HOL \<open>int\<close>: the code compares ids and never computes with them;
  \<^item> a protobuf message is a record of optional fields; a getter returns the field's
    value or the proto2 default (\<open>0\<close>, an empty sub-message) when the field is unset,
    \<open>has_...\<close> tests presence, a setter stores \<open>Some\<close>;
  \<^item> a member function that mutates the object takes the object and returns the new one;
  \<^item> a failed \<open>CHECK\<close> is the value \<open>Inl CHECK_failed\<close>;
  \<^item> logging (\<open>AINFO\<close>, \<open>AERROR\<close>, \<open>LOG(INFO)\<close>) has no effect on the object and is left out.
\<close>

subsection \<open>Protobuf messages\<close>

text \<open>
  Modelled from the spec: the message types \<open>Point3D\<close>, \<open>PerceptionObstacle\<close> and
  \<open>Feature\<close> and the enumeration \<open>PerceptionObstacle::Type\<close> are generated from
  \<open>.proto\<close> files that are not among the sources. Their fields are the ones that
  obstacle.cc reads and writes through the generated getters and setters; sections 3 and
  6 of the specification list the same fields, "each sub-field independently optional".
\<close>

text \<open>\<open>apollo::common::Point3D\<close>: three optional doubles.\<close>

record Point3D =
  p_x :: "real option"
  p_y :: "real option"
  p_z :: "real option"

definition Point3D_new :: Point3D where
  "Point3D_new = \<lparr>p_x = None, p_y = None, p_z = None\<rparr>"

definition has_x :: "Point3D \<Rightarrow> bool" where
  "has_x p = (p_x p \<noteq> None)"

definition has_y :: "Point3D \<Rightarrow> bool" where
  "has_y p = (p_y p \<noteq> None)"

definition has_z :: "Point3D \<Rightarrow> bool" where
  "has_z p = (p_z p \<noteq> None)"

definition get_x :: "Point3D \<Rightarrow> real" where
  "get_x p = (case p_x p of None \<Rightarrow> 0 | Some v \<Rightarrow> v)"

definition get_y :: "Point3D \<Rightarrow> real" where
  "get_y p = (case p_y p of None \<Rightarrow> 0 | Some v \<Rightarrow> v)"

definition get_z :: "Point3D \<Rightarrow> real" where
  "get_z p = (case p_z p of None \<Rightarrow> 0 | Some v \<Rightarrow> v)"

definition set_x :: "real \<Rightarrow> Point3D \<Rightarrow> Point3D" where
  "set_x v p = p\<lparr>p_x := Some v\<rparr>"

definition set_y :: "real \<Rightarrow> Point3D \<Rightarrow> Point3D" where
  "set_y v p = p\<lparr>p_y := Some v\<rparr>"

definition set_z :: "real \<Rightarrow> Point3D \<Rightarrow> Point3D" where
  "set_z v p = p\<lparr>p_z := Some v\<rparr>"

text \<open>
  \<open>PerceptionObstacle::Type\<close>: the code names \<open>UNKNOWN_MOVABLE\<close> and
  \<open>UNKNOWN_UNMOVABLE\<close>, the specification adds vehicles, pedestrians, cyclists and
  unknown objects. \<open>Obstacle\<close> only copies a value of this type.
\<close>

datatype ObstacleType =
  UNKNOWN | UNKNOWN_MOVABLE | UNKNOWN_UNMOVABLE | PEDESTRIAN | BICYCLE | VEHICLE

text \<open>
  \<open>apollo::perception::PerceptionObstacle\<close>, the raw detection: the fields that
  \<open>Obstacle\<close> reads, each optional.
\<close>

record PerceptionObstacle =
  po_id :: "int option"
  po_type :: "ObstacleType option"
  po_timestamp :: "real option"
  po_position :: "Point3D option"
  po_velocity :: "Point3D option"
  po_theta :: "real option"

definition po_has_id :: "PerceptionObstacle \<Rightarrow> bool" where
  "po_has_id po = (po_id po \<noteq> None)"

definition po_get_id :: "PerceptionObstacle \<Rightarrow> int" where
  "po_get_id po = (case po_id po of None \<Rightarrow> 0 | Some v \<Rightarrow> v)"

definition po_has_type :: "PerceptionObstacle \<Rightarrow> bool" where
  "po_has_type po = (po_type po \<noteq> None)"

definition po_get_type :: "PerceptionObstacle \<Rightarrow> ObstacleType" where
  "po_get_type po = (case po_type po of None \<Rightarrow> UNKNOWN | Some v \<Rightarrow> v)"

definition po_has_timestamp :: "PerceptionObstacle \<Rightarrow> bool" where
  "po_has_timestamp po = (po_timestamp po \<noteq> None)"

definition po_get_timestamp :: "PerceptionObstacle \<Rightarrow> real" where
  "po_get_timestamp po = (case po_timestamp po of None \<Rightarrow> 0 | Some v \<Rightarrow> v)"

definition po_has_position :: "PerceptionObstacle \<Rightarrow> bool" where
  "po_has_position po = (po_position po \<noteq> None)"

definition po_get_position :: "PerceptionObstacle \<Rightarrow> Point3D" where
  "po_get_position po = (case po_position po of None \<Rightarrow> Point3D_new | Some p \<Rightarrow> p)"

definition po_has_velocity :: "PerceptionObstacle \<Rightarrow> bool" where
  "po_has_velocity po = (po_velocity po \<noteq> None)"

definition po_get_velocity :: "PerceptionObstacle \<Rightarrow> Point3D" where
  "po_get_velocity po = (case po_velocity po of None \<Rightarrow> Point3D_new | Some p \<Rightarrow> p)"

definition po_has_theta :: "PerceptionObstacle \<Rightarrow> bool" where
  "po_has_theta po = (po_theta po \<noteq> None)"

definition po_get_theta :: "PerceptionObstacle \<Rightarrow> real" where
  "po_get_theta po = (case po_theta po of None \<Rightarrow> 0 | Some v \<Rightarrow> v)"

text \<open>
  \<open>Feature\<close>, one kinematic snapshot: the fields that \<open>Obstacle\<close> writes (section 3
  of the specification lists them), each optional as in the detection.
\<close>

record Feature =
  f_id :: "int option"
  f_timestamp :: "real option"
  f_position :: "Point3D option"
  f_velocity :: "Point3D option"
  f_velocity_heading :: "real option"
  f_speed :: "real option"
  f_acceleration :: "Point3D option"
  f_acc :: "real option"
  f_theta :: "real option"

text \<open>The default-constructed message of \<open>Feature feature;\<close>: nothing is set.\<close>

definition Feature_new :: Feature where
  "Feature_new = \<lparr>f_id = None, f_timestamp = None, f_position = None, f_velocity = None,
     f_velocity_heading = None, f_speed = None, f_acceleration = None, f_acc = None,
     f_theta = None\<rparr>"

definition feature_has_id :: "Feature \<Rightarrow> bool" where
  "feature_has_id f = (f_id f \<noteq> None)"

definition feature_id :: "Feature \<Rightarrow> int" where
  "feature_id f = (case f_id f of None \<Rightarrow> 0 | Some v \<Rightarrow> v)"

definition feature_timestamp :: "Feature \<Rightarrow> real" where
  "feature_timestamp f = (case f_timestamp f of None \<Rightarrow> 0 | Some v \<Rightarrow> v)"

definition feature_position :: "Feature \<Rightarrow> Point3D" where
  "feature_position f = (case f_position f of None \<Rightarrow> Point3D_new | Some p \<Rightarrow> p)"

definition feature_velocity :: "Feature \<Rightarrow> Point3D" where
  "feature_velocity f = (case f_velocity f of None \<Rightarrow> Point3D_new | Some p \<Rightarrow> p)"

definition feature_acceleration :: "Feature \<Rightarrow> Point3D" where
  "feature_acceleration f = (case f_acceleration f of None \<Rightarrow> Point3D_new | Some p \<Rightarrow> p)"

definition feature_acc :: "Feature \<Rightarrow> real" where
  "feature_acc f = (case f_acc f of None \<Rightarrow> 0 | Some v \<Rightarrow> v)"

definition feature_speed :: "Feature \<Rightarrow> real" where
  "feature_speed f = (case f_speed f of None \<Rightarrow> 0 | Some v \<Rightarrow> v)"

definition feature_velocity_heading :: "Feature \<Rightarrow> real" where
  "feature_velocity_heading f = (case f_velocity_heading f of None \<Rightarrow> 0 | Some v \<Rightarrow> v)"

definition feature_theta :: "Feature \<Rightarrow> real" where
  "feature_theta f = (case f_theta f of None \<Rightarrow> 0 | Some v \<Rightarrow> v)"

definition set_id :: "int \<Rightarrow> Feature \<Rightarrow> Feature" where
  "set_id v f = f\<lparr>f_id := Some v\<rparr>"

definition set_timestamp :: "real \<Rightarrow> Feature \<Rightarrow> Feature" where
  "set_timestamp v f = f\<lparr>f_timestamp := Some v\<rparr>"

definition set_velocity_heading :: "real \<Rightarrow> Feature \<Rightarrow> Feature" where
  "set_velocity_heading v f = f\<lparr>f_velocity_heading := Some v\<rparr>"

definition set_speed :: "real \<Rightarrow> Feature \<Rightarrow> Feature" where
  "set_speed v f = f\<lparr>f_speed := Some v\<rparr>"

definition set_acc :: "real \<Rightarrow> Feature \<Rightarrow> Feature" where
  "set_acc v f = f\<lparr>f_acc := Some v\<rparr>"

definition set_theta :: "real \<Rightarrow> Feature \<Rightarrow> Feature" where
  "set_theta v f = f\<lparr>f_theta := Some v\<rparr>"

text \<open>
  \<open>feature->mutable_position()->set_x(x)\<close> and its siblings: the sub-message is created
  empty when it is absent, then one of its fields is stored.
\<close>

definition mutable_position :: "(Point3D \<Rightarrow> Point3D) \<Rightarrow> Feature \<Rightarrow> Feature" where
  "mutable_position upd f = f\<lparr>f_position := Some (upd (feature_position f))\<rparr>"

definition mutable_velocity :: "(Point3D \<Rightarrow> Point3D) \<Rightarrow> Feature \<Rightarrow> Feature" where
  "mutable_velocity upd f = f\<lparr>f_velocity := Some (upd (feature_velocity f))\<rparr>"

definition mutable_acceleration :: "(Point3D \<Rightarrow> Point3D) \<Rightarrow> Feature \<Rightarrow> Feature" where
  "mutable_acceleration upd f = f\<lparr>f_acceleration := Some (upd (feature_acceleration f))\<rparr>"

subsection \<open>What the file takes from elsewhere\<close>

text \<open>
  \<open>apollo::common::math::DoubleCompare\<close> and the flags \<open>FLAGS_min_acc\<close> and
  \<open>FLAGS_max_acc\<close> are declared in other files (math_utils.h, prediction_gflags.h); they
  are parameters of the model, collected in one record.
\<close>

record Env =
  DoubleCompare :: "real \<Rightarrow> real \<Rightarrow> int"
  FLAGS_min_acc :: real
  FLAGS_max_acc :: real

text \<open>
  Modelled from the spec: \<open>apollo::common::math::Clamp\<close> of math_utils.h is not among the
  sources; section 4.3 of the specification writes \<open>clamp(raw * damp, min_acc, max_acc)\<close>,
  the value limited to the two bounds.
\<close>

definition Clamp :: "real \<Rightarrow> real \<Rightarrow> real \<Rightarrow> real" where
  "Clamp v lo hi = (if v < lo then lo else if hi < v then hi else v)"

text \<open>\<open>std::hypot\<close> and \<open>std::atan2\<close> of the C library, on reals.\<close>

definition hypot :: "real \<Rightarrow> real \<Rightarrow> real" where
  "hypot a b = sqrt (a\<^sup>2 + b\<^sup>2)"

definition atan2 :: "real \<Rightarrow> real \<Rightarrow> real" where
  "atan2 b a =
     (if 0 < a then arctan (b / a)
      else if a < 0 \<and> 0 \<le> b then arctan (b / a) + pi
      else if a < 0 \<and> b < 0 then arctan (b / a) - pi
      else if 0 < b then pi / 2
      else if b < 0 then - (pi / 2)
      else 0)"

subsection \<open>The damping factor\<close>

definition Damp :: "real \<Rightarrow> real \<Rightarrow> real" where
  "Damp x sigma = 1 / (1 + exp (1 / (\<bar>x\<bar> + sigma)))"

subsection \<open>The object and its accessors\<close>

text \<open>
  The data members of \<open>Obstacle\<close>: \<open>id_\<close>, \<open>type_\<close>, \<open>feature_history_\<close> (most recent
  first), \<open>kf_motion_tracker_\<close>, \<open>is_motion_tracker_enabled_\<close> and
  \<open>kf_lane_tracker_map_\<close>. The Kalman filter is opaque to this file: its type is the
  parameter \<open>'kf\<close>.
\<close>

record 'kf Obstacle =
  o_id :: int
  o_type :: ObstacleType
  o_feature_history :: "Feature list"
  o_kf_motion_tracker :: 'kf
  o_is_motion_tracker_enabled :: bool
  o_kf_lane_tracker_map :: "string \<rightharpoonup> 'kf"

text \<open>The constructor; \<open>kf0\<close> is the default-constructed filter.\<close>

definition Obstacle_new :: "'kf \<Rightarrow> 'kf Obstacle" where
  "Obstacle_new kf0 = \<lparr>o_id = - 1, o_type = UNKNOWN_MOVABLE, o_feature_history = [],
     o_kf_motion_tracker = kf0, o_is_motion_tracker_enabled = False,
     o_kf_lane_tracker_map = Map.empty\<rparr>"

datatype fatal = CHECK_failed

definition Obstacle_id :: "'kf Obstacle \<Rightarrow> int" where
  "Obstacle_id s = o_id s"

definition Obstacle_timestamp :: "'kf Obstacle \<Rightarrow> real" where
  "Obstacle_timestamp s =
     (if length (o_feature_history s) > 0 then feature_timestamp (hd (o_feature_history s))
      else 0)"

definition feature :: "nat \<Rightarrow> 'kf Obstacle \<Rightarrow> fatal + Feature" where
  "feature i s =
     (if i < length (o_feature_history s) then Inr (o_feature_history s ! i)
      else Inl CHECK_failed)"

text \<open>
  \<open>mutable_feature\<close> returns a pointer into the history: the model returns the position
  it points to, together with the element stored there.
\<close>

definition mutable_feature :: "nat \<Rightarrow> 'kf Obstacle \<Rightarrow> fatal + nat \<times> Feature" where
  "mutable_feature i s =
     (if i < length (o_feature_history s) then Inr (i, o_feature_history s ! i)
      else Inl CHECK_failed)"

definition latest_feature :: "'kf Obstacle \<Rightarrow> fatal + Feature" where
  "latest_feature s =
     (if length (o_feature_history s) > 0 then Inr (hd (o_feature_history s))
      else Inl CHECK_failed)"

definition mutable_latest_feature :: "'kf Obstacle \<Rightarrow> fatal + nat \<times> Feature" where
  "mutable_latest_feature s =
     (if length (o_feature_history s) > 0 then Inr (0, hd (o_feature_history s))
      else Inl CHECK_failed)"

definition history_size :: "'kf Obstacle \<Rightarrow> nat" where
  "history_size s = length (o_feature_history s)"

definition kf_lane_tracker :: "string \<Rightarrow> 'kf Obstacle \<Rightarrow> fatal + 'kf" where
  "kf_lane_tracker lane_id s =
     (case o_kf_lane_tracker_map s lane_id of
        None \<Rightarrow> Inl CHECK_failed
      | Some kf \<Rightarrow> Inr kf)"

subsection \<open>Ingestion\<close>

datatype ErrorCode = OK | PREDICTION_ERROR

definition SetId ::
  "PerceptionObstacle \<Rightarrow> Feature \<Rightarrow> 'kf Obstacle \<Rightarrow> ErrorCode \<times> Feature \<times> 'kf Obstacle" where
  "SetId perception_obstacle ft s =
     (if \<not> po_has_id perception_obstacle then (PREDICTION_ERROR, ft, s)
      else
        let id' = po_get_id perception_obstacle in
        if o_id s < 0 then (OK, ft, s\<lparr>o_id := id'\<rparr>)
        else if o_id s \<noteq> id' then (PREDICTION_ERROR, ft, s)
        else (OK, set_id id' ft, s))"

definition SetType :: "PerceptionObstacle \<Rightarrow> 'kf Obstacle \<Rightarrow> ErrorCode \<times> 'kf Obstacle" where
  "SetType perception_obstacle s =
     (if po_has_type perception_obstacle
      then (OK, s\<lparr>o_type := po_get_type perception_obstacle\<rparr>)
      else (PREDICTION_ERROR, s))"

definition SetTimestamp :: "PerceptionObstacle \<Rightarrow> real \<Rightarrow> Feature \<Rightarrow> Feature" where
  "SetTimestamp perception_obstacle timestamp ft =
     (let ts = (if po_has_timestamp perception_obstacle
                   \<and> po_get_timestamp perception_obstacle > 0
                then po_get_timestamp perception_obstacle else timestamp)
      in set_timestamp ts ft)"

definition SetPosition :: "PerceptionObstacle \<Rightarrow> Feature \<Rightarrow> Feature" where
  "SetPosition perception_obstacle ft =
     (let pos = po_get_position perception_obstacle;
          present = po_has_position perception_obstacle;
          x = (if present \<and> has_x pos then get_x pos else 0);
          y = (if present \<and> has_y pos then get_y pos else 0);
          z = (if present \<and> has_z pos then get_z pos else 0)
      in mutable_position (set_z z) (mutable_position (set_y y) (mutable_position (set_x x) ft)))"

definition SetVelocity :: "PerceptionObstacle \<Rightarrow> Feature \<Rightarrow> Feature" where
  "SetVelocity perception_obstacle ft =
     (let vel = po_get_velocity perception_obstacle;
          present = po_has_velocity perception_obstacle;
          velocity_x = (if present \<and> has_x vel then get_x vel else 0);
          velocity_y = (if present \<and> has_y vel then get_y vel else 0);
          velocity_z = (if present \<and> has_z vel then get_z vel else 0);
          ft1 = mutable_velocity (set_z velocity_z)
                  (mutable_velocity (set_y velocity_y)
                    (mutable_velocity (set_x velocity_x) ft));
          speed = hypot (hypot velocity_x velocity_y) velocity_z;
          velocity_heading = atan2 velocity_y velocity_x
      in set_speed speed (set_velocity_heading velocity_heading ft1))"

definition SetAcceleration :: "Env \<Rightarrow> 'kf Obstacle \<Rightarrow> Feature \<Rightarrow> Feature" where
  "SetAcceleration E s ft =
     (let (acc_x, acc_y, acc_z) =
        (if length (o_feature_history s) > 0 then
           let curr_ts = feature_timestamp ft;
               prev_ts = feature_timestamp (hd (o_feature_history s));
               curr_velocity = feature_velocity ft;
               prev_velocity = feature_velocity (hd (o_feature_history s))
           in
             if DoubleCompare E curr_ts prev_ts = 1 then
               let damping_x = Damp (get_x curr_velocity) 0.001;
                   damping_y = Damp (get_y curr_velocity) 0.001;
                   damping_z = Damp (get_z curr_velocity) 0.001;
                   acc_x = (get_x curr_velocity - get_x prev_velocity) / (curr_ts - prev_ts);
                   acc_y = (get_y curr_velocity - get_y prev_velocity) / (curr_ts - prev_ts);
                   acc_z = (get_z curr_velocity - get_z prev_velocity) / (curr_ts - prev_ts)
               in (Clamp (acc_x * damping_x) (FLAGS_min_acc E) (FLAGS_max_acc E),
                   Clamp (acc_y * damping_y) (FLAGS_min_acc E) (FLAGS_max_acc E),
                   Clamp (acc_z * damping_z) (FLAGS_min_acc E) (FLAGS_max_acc E))
             else (0, 0, 0)
         else (0, 0, 0));
          ft1 = mutable_acceleration (set_z acc_z)
                  (mutable_acceleration (set_y acc_y)
                    (mutable_acceleration (set_x acc_x) ft));
          acc = hypot (hypot acc_x acc_y) acc_z
      in set_acc acc ft1)"

definition SetTheta :: "PerceptionObstacle \<Rightarrow> Feature \<Rightarrow> Feature" where
  "SetTheta perception_obstacle ft =
     (let theta = (if po_has_theta perception_obstacle then po_get_theta perception_obstacle
                   else 0)
      in set_theta theta ft)"

text \<open>
  \<open>Insert\<close> returns nothing. \<open>Insert_run\<close> is its body: the object it leaves behind,
  and, as the only addition of the model, the \<open>return\<close> it left through, with the value
  of the local variable \<open>feature\<close> when the body ran to its end.
\<close>

datatype insert_exit =
  Older_frame | SetId_failed | SetType_failed | Finished Feature

definition Insert_run ::
  "Env \<Rightarrow> PerceptionObstacle \<Rightarrow> real \<Rightarrow> 'kf Obstacle \<Rightarrow> insert_exit \<times> 'kf Obstacle" where
  "Insert_run E perception_obstacle timestamp s =
     (if length (o_feature_history s) > 0
         \<and> timestamp \<le> feature_timestamp (hd (o_feature_history s))
      then (Older_frame, s)
      else
        case SetId perception_obstacle Feature_new s of
          (PREDICTION_ERROR, ft1, s1) \<Rightarrow> (SetId_failed, s1)
        | (OK, ft1, s1) \<Rightarrow>
            (case SetType perception_obstacle s1 of
               (PREDICTION_ERROR, s2) \<Rightarrow> (SetType_failed, s2)
             | (OK, s2) \<Rightarrow>
                 let ft2 = SetTimestamp perception_obstacle timestamp ft1;
                     ft3 = SetPosition perception_obstacle ft2;
                     ft4 = SetVelocity perception_obstacle ft3;
                     ft5 = SetAcceleration E s2 ft4;
                     ft6 = SetTheta perception_obstacle ft5
                 in (Finished ft6, s2)))"

definition Insert :: "Env \<Rightarrow> PerceptionObstacle \<Rightarrow> real \<Rightarrow> 'kf Obstacle \<Rightarrow> 'kf Obstacle" where
  "Insert E perception_obstacle timestamp s = snd (Insert_run E perception_obstacle timestamp s)"

text \<open>A sequence of ingestions, in the order of the list.\<close>

fun Insert_all ::
  "Env \<Rightarrow> (PerceptionObstacle \<times> real) list \<Rightarrow> 'kf Obstacle \<Rightarrow> 'kf Obstacle" where
  "Insert_all E [] s = s"
| "Insert_all E ((po, t) # rest) s = Insert_all E rest (Insert E po t s)"

text \<open>Reading the exit of an ingestion: did the body run to its end, and with which feature.\<close>

definition accepted :: "insert_exit \<Rightarrow> bool" where
  "accepted e = (case e of Finished ft \<Rightarrow> True | _ \<Rightarrow> False)"

definition exit_feature :: "insert_exit \<Rightarrow> Feature option" where
  "exit_feature e = (case e of Finished ft \<Rightarrow> Some ft | _ \<Rightarrow> None)"

subsection \<open>The mutex\<close>

text \<open>
  \<open>std::mutex Obstacle::mutex_\<close> is a static member: one mutex for all objects. A
  member function that opens with \<open>std::lock_guard<std::mutex> lock(mutex_)\<close> runs its
  body only once it owns the mutex, and gives it back when it returns. The model looks at
  one call made while \<open>held\<close> tells whether another thread owns the mutex: with a lock
  guard the call does not run then (\<open>None\<close>: it waits), without one it runs at once.
\<close>

definition lock_guard :: "('s \<Rightarrow> 'r \<times> 's) \<Rightarrow> bool \<Rightarrow> 's \<Rightarrow> ('r \<times> 's) option" where
  "lock_guard body held s = (if held then None else Some (body s))"

definition id_call :: "bool \<Rightarrow> 'kf Obstacle \<Rightarrow> (int \<times> 'kf Obstacle) option" where
  "id_call = lock_guard (\<lambda>s. (Obstacle_id s, s))"

definition timestamp_call :: "bool \<Rightarrow> 'kf Obstacle \<Rightarrow> (real \<times> 'kf Obstacle) option" where
  "timestamp_call = lock_guard (\<lambda>s. (Obstacle_timestamp s, s))"

definition feature_call ::
  "nat \<Rightarrow> bool \<Rightarrow> 'kf Obstacle \<Rightarrow> ((fatal + Feature) \<times> 'kf Obstacle) option" where
  "feature_call i = lock_guard (\<lambda>s. (feature i s, s))"

definition mutable_feature_call ::
  "nat \<Rightarrow> bool \<Rightarrow> 'kf Obstacle \<Rightarrow> ((fatal + nat \<times> Feature) \<times> 'kf Obstacle) option" where
  "mutable_feature_call i = lock_guard (\<lambda>s. (mutable_feature i s, s))"

definition latest_feature_call ::
  "bool \<Rightarrow> 'kf Obstacle \<Rightarrow> ((fatal + Feature) \<times> 'kf Obstacle) option" where
  "latest_feature_call = lock_guard (\<lambda>s. (latest_feature s, s))"

definition mutable_latest_feature_call ::
  "bool \<Rightarrow> 'kf Obstacle \<Rightarrow> ((fatal + nat \<times> Feature) \<times> 'kf Obstacle) option" where
  "mutable_latest_feature_call = lock_guard (\<lambda>s. (mutable_latest_feature s, s))"

definition history_size_call :: "bool \<Rightarrow> 'kf Obstacle \<Rightarrow> (nat \<times> 'kf Obstacle) option" where
  "history_size_call = lock_guard (\<lambda>s. (history_size s, s))"

definition Insert_call ::
  "Env \<Rightarrow> PerceptionObstacle \<Rightarrow> real \<Rightarrow> bool \<Rightarrow> 'kf Obstacle \<Rightarrow> (unit \<times> 'kf Obstacle) option" where
  "Insert_call E perception_obstacle timestamp =
     lock_guard (\<lambda>s. ((), Insert E perception_obstacle timestamp s))"

text \<open>\<open>kf_lane_tracker\<close> opens with its \<open>CHECK\<close>: the function declares no lock guard.\<close>

definition kf_lane_tracker_call ::
  "string \<Rightarrow> bool \<Rightarrow> 'kf Obstacle \<Rightarrow> ((fatal + 'kf) \<times> 'kf Obstacle) option" where
  "kf_lane_tracker_call lane_id held s = Some (kf_lane_tracker lane_id s, s)"

subsection \<open>The estimator on doubles with their special values\<close>

text \<open>
  The sections above compute with reals. A C++ \<open>double\<close> also has two infinities and NaN,
  and a result too large for the format becomes an infinity. This section gives the
  estimator once more on such values: a \<open>double\<close> is a finite real, \<open>+inf\<close>, \<open>-inf\<close> or
  NaN; the operations follow IEEE 754 on the special values (NaN in gives NaN out,
  \<open>inf - inf\<close>, \<open>inf * 0\<close>, \<open>0 / 0\<close> and \<open>inf / inf\<close> are NaN, a comparison with NaN is
  false); a finite result beyond \<open>DBL_MAX\<close> in magnitude overflows. What stays outside:
  the rounding of finite results (a finite result is exact here) and the sign of zero.
\<close>

datatype double = Fin real | PInf | NInf | NaN

text \<open>The largest finite double, and the overflow of a result beyond it.\<close>

definition DBL_MAX :: real where
  "DBL_MAX = (2 - 1 / 2 ^ 52) * 2 ^ 1023"

definition overflow :: "real \<Rightarrow> double" where
  "overflow r = (if DBL_MAX < r then PInf else if r < - DBL_MAX then NInf else Fin r)"

text \<open>\<open>std::fabs\<close>, \<open>+\<close>, \<open>-\<close>, \<open>*\<close>, \<open>/\<close>, \<open>exp\<close>, \<open><\<close>, \<open><=\<close> and \<open>std::hypot\<close> on doubles.\<close>

fun fabs_d :: "double \<Rightarrow> double" where
  "fabs_d (Fin a) = Fin \<bar>a\<bar>"
| "fabs_d PInf = PInf"
| "fabs_d NInf = PInf"
| "fabs_d NaN = NaN"

fun add_d :: "double \<Rightarrow> double \<Rightarrow> double" where
  "add_d NaN b = NaN"
| "add_d a NaN = NaN"
| "add_d PInf NInf = NaN"
| "add_d NInf PInf = NaN"
| "add_d PInf b = PInf"
| "add_d NInf b = NInf"
| "add_d (Fin a) PInf = PInf"
| "add_d (Fin a) NInf = NInf"
| "add_d (Fin a) (Fin b) = overflow (a + b)"

fun sub_d :: "double \<Rightarrow> double \<Rightarrow> double" where
  "sub_d NaN b = NaN"
| "sub_d a NaN = NaN"
| "sub_d PInf PInf = NaN"
| "sub_d NInf NInf = NaN"
| "sub_d PInf b = PInf"
| "sub_d NInf b = NInf"
| "sub_d (Fin a) PInf = NInf"
| "sub_d (Fin a) NInf = PInf"
| "sub_d (Fin a) (Fin b) = overflow (a - b)"

definition signed_inf :: "bool \<Rightarrow> double" where
  "signed_inf negative = (if negative then NInf else PInf)"

fun mul_d :: "double \<Rightarrow> double \<Rightarrow> double" where
  "mul_d NaN b = NaN"
| "mul_d a NaN = NaN"
| "mul_d PInf PInf = PInf"
| "mul_d PInf NInf = NInf"
| "mul_d NInf PInf = NInf"
| "mul_d NInf NInf = PInf"
| "mul_d PInf (Fin b) = (if b = 0 then NaN else signed_inf (b < 0))"
| "mul_d NInf (Fin b) = (if b = 0 then NaN else signed_inf (0 < b))"
| "mul_d (Fin a) PInf = (if a = 0 then NaN else signed_inf (a < 0))"
| "mul_d (Fin a) NInf = (if a = 0 then NaN else signed_inf (0 < a))"
| "mul_d (Fin a) (Fin b) = overflow (a * b)"

fun div_d :: "double \<Rightarrow> double \<Rightarrow> double" where
  "div_d NaN b = NaN"
| "div_d a NaN = NaN"
| "div_d PInf (Fin b) = signed_inf (b < 0)"
| "div_d NInf (Fin b) = signed_inf (0 \<le> b)"
| "div_d PInf b = NaN"
| "div_d NInf b = NaN"
| "div_d (Fin a) PInf = Fin 0"
| "div_d (Fin a) NInf = Fin 0"
| "div_d (Fin a) (Fin b) =
     (if b = 0 then (if a = 0 then NaN else signed_inf (a < 0)) else overflow (a / b))"

fun exp_d :: "double \<Rightarrow> double" where
  "exp_d (Fin a) = overflow (exp a)"
| "exp_d PInf = PInf"
| "exp_d NInf = Fin 0"
| "exp_d NaN = NaN"

fun less_d :: "double \<Rightarrow> double \<Rightarrow> bool" where
  "less_d NaN b = False"
| "less_d a NaN = False"
| "less_d (Fin a) (Fin b) = (a < b)"
| "less_d (Fin a) PInf = True"
| "less_d (Fin a) NInf = False"
| "less_d PInf b = False"
| "less_d NInf NInf = False"
| "less_d NInf b = True"

fun less_eq_d :: "double \<Rightarrow> double \<Rightarrow> bool" where
  "less_eq_d NaN b = False"
| "less_eq_d a NaN = False"
| "less_eq_d (Fin a) (Fin b) = (a \<le> b)"
| "less_eq_d (Fin a) PInf = True"
| "less_eq_d (Fin a) NInf = False"
| "less_eq_d PInf PInf = True"
| "less_eq_d PInf b = False"
| "less_eq_d NInf b = True"


text \<open>\<open>Damp\<close> (lines 38-40), operation by operation.\<close>

definition Damp_d :: "double \<Rightarrow> double \<Rightarrow> double" where
  "Damp_d x sigma = div_d (Fin 1) (add_d (Fin 1) (exp_d (div_d (Fin 1) (add_d (fabs_d x) sigma))))"






subsection \<open>Example inputs\<close>

text \<open>
  Concrete values for the instances below: an environment with the plain three-way
  comparison and the bounds \<open>-4\<close> and \<open>4\<close>, one whose bounds leave zero out, a detection
  with the given id, type and timestamp and nothing else, a one-dimensional velocity, a
  stored feature with a timestamp and a velocity along x, an object with a given id
  and history, and the same environments and a sample along x on doubles.
\<close>

definition example_env :: Env where
  "example_env = \<lparr>DoubleCompare = (\<lambda>a b. if a < b then - 1 else if b < a then 1 else 0),
     FLAGS_min_acc = - 4, FLAGS_max_acc = 4\<rparr>"

definition positive_env :: Env where
  "positive_env = example_env\<lparr>FLAGS_min_acc := 1, FLAGS_max_acc := 2\<rparr>"

definition detection ::
  "int option \<Rightarrow> ObstacleType option \<Rightarrow> real option \<Rightarrow> PerceptionObstacle" where
  "detection i ty t = \<lparr>po_id = i, po_type = ty, po_timestamp = t,
     po_position = None, po_velocity = None, po_theta = None\<rparr>"

definition along_x :: "real \<Rightarrow> Point3D" where
  "along_x v = \<lparr>p_x = Some v, p_y = Some 0, p_z = Some 0\<rparr>"

definition stored_feature :: "real \<Rightarrow> real \<Rightarrow> Feature" where
  "stored_feature t v = Feature_new\<lparr>f_timestamp := Some t, f_velocity := Some (along_x v)\<rparr>"




definition bound_obstacle :: "int \<Rightarrow> Feature list \<Rightarrow> unit Obstacle" where
  "bound_obstacle i h = (Obstacle_new ())\<lparr>o_id := i, o_type := VEHICLE, o_feature_history := h\<rparr>"

section \<open>Properties\<close>

subsection \<open>The exits of an ingestion\<close>

lemma Insert_run_Older:
  "fst (Insert_run E po t s) = Older_frame \<longleftrightarrow>
     o_feature_history s \<noteq> [] \<and> t \<le> feature_timestamp (hd (o_feature_history s))"
  by (simp add: Insert_run_def SetId_def SetType_def Let_def
      split: prod.splits ErrorCode.splits)

lemma Insert_run_Older_state:
  "fst (Insert_run E po t s) = Older_frame \<Longrightarrow> snd (Insert_run E po t s) = s"
  by (simp add: Insert_run_def SetId_def SetType_def Let_def
      split: prod.splits ErrorCode.splits if_splits)

lemma Insert_run_SetId_failed:
  "fst (Insert_run E po t s) = SetId_failed \<longleftrightarrow>
     \<not> (o_feature_history s \<noteq> [] \<and> t \<le> feature_timestamp (hd (o_feature_history s)))
     \<and> (\<not> po_has_id po \<or> (0 \<le> o_id s \<and> o_id s \<noteq> po_get_id po))"
  by (auto simp add: Insert_run_def SetId_def SetType_def Let_def
      split: prod.splits ErrorCode.splits if_splits)

lemma Insert_run_SetId_failed_state:
  "fst (Insert_run E po t s) = SetId_failed \<Longrightarrow> snd (Insert_run E po t s) = s"
  by (auto simp add: Insert_run_def SetId_def SetType_def Let_def
      split: prod.splits ErrorCode.splits if_splits)

lemma Insert_run_SetType_failed:
  "fst (Insert_run E po t s) = SetType_failed \<longleftrightarrow>
     \<not> (o_feature_history s \<noteq> [] \<and> t \<le> feature_timestamp (hd (o_feature_history s)))
     \<and> po_has_id po \<and> (o_id s < 0 \<or> o_id s = po_get_id po) \<and> \<not> po_has_type po"
  by (auto simp add: Insert_run_def SetId_def SetType_def Let_def
      split: prod.splits ErrorCode.splits if_splits)

lemma Insert_run_SetType_failed_state:
  "fst (Insert_run E po t s) = SetType_failed \<Longrightarrow>
     snd (Insert_run E po t s) = (if o_id s < 0 then s\<lparr>o_id := po_get_id po\<rparr> else s)"
  by (auto simp add: Insert_run_def SetId_def SetType_def Let_def
      split: prod.splits ErrorCode.splits if_splits)

lemma Insert_run_accepted:
  "accepted (fst (Insert_run E po t s)) \<longleftrightarrow>
     \<not> (o_feature_history s \<noteq> [] \<and> t \<le> feature_timestamp (hd (o_feature_history s)))
     \<and> po_has_id po \<and> (o_id s < 0 \<or> o_id s = po_get_id po) \<and> po_has_type po"
  by (auto simp add: accepted_def Insert_run_def SetId_def SetType_def Let_def
      split: prod.splits ErrorCode.splits if_splits)

lemma Insert_run_accepted_state:
  "accepted (fst (Insert_run E po t s)) \<Longrightarrow>
     snd (Insert_run E po t s) =
       (if o_id s < 0 then s\<lparr>o_id := po_get_id po, o_type := po_get_type po\<rparr>
        else s\<lparr>o_type := po_get_type po\<rparr>)"
  by (auto simp add: accepted_def Insert_run_def SetId_def SetType_def Let_def
      split: prod.splits ErrorCode.splits if_splits)

lemma Insert_history: "o_feature_history (Insert E po t s) = o_feature_history s"
  by (simp add: Insert_def Insert_run_def SetId_def SetType_def Let_def
      split: prod.splits ErrorCode.splits)

lemma Insert_all_history: "o_feature_history (Insert_all E inputs s) = o_feature_history s"
  by (induction E inputs s rule: Insert_all.induct) (simp_all add: Insert_history)

lemma Insert_bound_id: "0 \<le> o_id s \<Longrightarrow> o_id (Insert E po t s) = o_id s"
  by (auto simp add: Insert_def Insert_run_def SetId_def SetType_def Let_def
      split: prod.splits ErrorCode.splits if_splits)

lemma Insert_all_bound_id: "0 \<le> o_id s \<Longrightarrow> o_id (Insert_all E inputs s) = o_id s"
  by (induction E inputs s rule: Insert_all.induct) (simp_all add: Insert_bound_id)

subsection \<open>Claims about storing features\<close>

text \<open>
  C1 (the claim: after n ingestions with valid id and type and increasing timestamps,
  \<open>history_size()\<close> is n and \<open>feature(0)\<close> carries the last timestamp). \<open>Insert\<close> builds
  the feature and returns without storing it: no statement of the file adds an element to
  \<open>feature_history_\<close>. Evaluated at two ingestions (id 7, type VEHICLE, timestamps 1 and
  2) into a fresh object: both run to the end of the body, the history stays empty and
  \<open>feature(0)\<close> fails its \<open>CHECK\<close>.
\<close>

theorem C1_Insert_never_stores:
  "history_size (Insert_all E
       [(detection (Some 7) (Some VEHICLE) (Some 1), 1),
        (detection (Some 7) (Some VEHICLE) (Some 2), 2)] (Obstacle_new kf0)) = 0
   \<and> feature 0 (Insert_all E
       [(detection (Some 7) (Some VEHICLE) (Some 1), 1),
        (detection (Some 7) (Some VEHICLE) (Some 2), 2)] (Obstacle_new kf0)) = Inl CHECK_failed
   \<and> accepted (fst (Insert_run E (detection (Some 7) (Some VEHICLE) (Some 1)) 1 (Obstacle_new kf0)))
   \<and> accepted (fst (Insert_run E (detection (Some 7) (Some VEHICLE) (Some 2)) 2
        (Insert E (detection (Some 7) (Some VEHICLE) (Some 1)) 1 (Obstacle_new kf0))))"
proof -
  have h: "o_feature_history (Obstacle_new kf0) = []"
    by (simp add: Obstacle_new_def)
  have a1: "accepted (fst (Insert_run E (detection (Some 7) (Some VEHICLE) (Some 1)) 1 (Obstacle_new kf0)))"
    by (simp add: Insert_run_accepted h)
       (simp add: detection_def po_has_id_def po_has_type_def Obstacle_new_def)
  have a2: "accepted (fst (Insert_run E (detection (Some 7) (Some VEHICLE) (Some 2)) 2
        (Insert E (detection (Some 7) (Some VEHICLE) (Some 1)) 1 (Obstacle_new kf0))))"
    using a1
    by (simp add: Insert_run_accepted Insert_history h Insert_def Insert_run_accepted_state)
       (simp add: detection_def po_has_id_def po_has_type_def po_get_id_def Obstacle_new_def)
  show ?thesis
    using a1 a2
    by (simp add: history_size_def feature_def Insert_all_history h del: Insert_all.simps)
qed

text \<open>
  C4 (the claim: the feature's id equals the bound id of the object, whether this
  ingestion bound it or found it bound). \<open>SetId\<close> calls \<open>feature->set_id(id)\<close> only where
  the object was bound already; where it binds the object the feature is left as it was.
  Evaluated at a detection with id 7: on a fresh object the object's id becomes 7 and the
  feature's id stays unset (its getter returns 0), on an object bound to 7 the feature's
  id is 7.
\<close>

theorem C4_first_bind_leaves_feature_id_unset:
  "SetId (detection (Some 7) (Some VEHICLE) (Some 1)) Feature_new (Obstacle_new kf0)
     = (OK, Feature_new, (Obstacle_new kf0)\<lparr>o_id := 7\<rparr>)
   \<and> feature_has_id Feature_new = False \<and> feature_id Feature_new = 0
   \<and> SetId (detection (Some 7) (Some VEHICLE) (Some 1)) Feature_new ((Obstacle_new kf0)\<lparr>o_id := 7\<rparr>)
     = (OK, set_id 7 Feature_new, (Obstacle_new kf0)\<lparr>o_id := 7\<rparr>)
   \<and> feature_id (set_id 7 Feature_new) = 7
   \<and> map_option feature_id (exit_feature (fst (Insert_run E
        (detection (Some 7) (Some VEHICLE) (Some 1)) 1 (Obstacle_new kf0)))) = Some 0
   \<and> Obstacle_id (Insert E (detection (Some 7) (Some VEHICLE) (Some 1)) 1 (Obstacle_new kf0)) = 7"
  by (simp add: SetId_def detection_def po_has_id_def po_get_id_def Obstacle_new_def
      Feature_new_def feature_has_id_def feature_id_def set_id_def Let_def
      Insert_def Insert_run_def SetType_def po_has_type_def exit_feature_def Obstacle_id_def
      SetTimestamp_def SetPosition_def SetVelocity_def SetAcceleration_def SetTheta_def
      set_timestamp_def mutable_position_def mutable_velocity_def mutable_acceleration_def
      set_speed_def set_velocity_heading_def set_acc_def set_theta_def)

subsection \<open>Claims about the accessors\<close>

text \<open>
  C8: a fresh object has an empty history; \<open>feature(i)\<close> and \<open>mutable_feature(i)\<close> fail
  their \<open>CHECK\<close> when \<open>i\<close> is not below \<open>history_size()\<close>, \<open>latest_feature()\<close> and
  \<open>mutable_latest_feature()\<close> when the history is empty, \<open>kf_lane_tracker\<close> when the lane
  id is not a key of the map; under the opposite conditions each returns the element
  asked for.
\<close>

theorem C8_accessors_check_their_preconditions:
  "history_size (Obstacle_new kf0) = 0
   \<and> (history_size s \<le> i \<longrightarrow>
        feature i s = Inl CHECK_failed \<and> mutable_feature i s = Inl CHECK_failed)
   \<and> (history_size s = 0 \<longrightarrow>
        latest_feature s = Inl CHECK_failed \<and> mutable_latest_feature s = Inl CHECK_failed)
   \<and> (o_kf_lane_tracker_map s lane_id = None \<longrightarrow> kf_lane_tracker lane_id s = Inl CHECK_failed)
   \<and> (i < history_size s \<longrightarrow>
        feature i s = Inr (o_feature_history s ! i)
        \<and> mutable_feature i s = Inr (i, o_feature_history s ! i))
   \<and> (0 < history_size s \<longrightarrow>
        latest_feature s = Inr (o_feature_history s ! 0)
        \<and> mutable_latest_feature s = Inr (0, o_feature_history s ! 0))
   \<and> (o_kf_lane_tracker_map s lane_id = Some kf \<longrightarrow> kf_lane_tracker lane_id s = Inr kf)"
  by (auto simp add: history_size_def Obstacle_new_def feature_def mutable_feature_def
      latest_feature_def mutable_latest_feature_def kf_lane_tracker_def hd_conv_nth)

theorem C8_accessors_witness:
  "history_size (Obstacle_new ()) \<le> 0
   \<and> feature 0 (Obstacle_new ()) = Inl CHECK_failed
   \<and> mutable_feature 0 (Obstacle_new ()) = Inl CHECK_failed
   \<and> latest_feature (Obstacle_new ()) = Inl CHECK_failed
   \<and> mutable_latest_feature (Obstacle_new ()) = Inl CHECK_failed
   \<and> kf_lane_tracker ''lane'' (Obstacle_new ()) = Inl CHECK_failed
   \<and> 1 < history_size ((Obstacle_new ())\<lparr>o_feature_history := [stored_feature 2 1, stored_feature 1 0],
        o_kf_lane_tracker_map := [''lane'' \<mapsto> ()]\<rparr>)
   \<and> feature 1 ((Obstacle_new ())\<lparr>o_feature_history := [stored_feature 2 1, stored_feature 1 0],
        o_kf_lane_tracker_map := [''lane'' \<mapsto> ()]\<rparr>) = Inr (stored_feature 1 0)
   \<and> mutable_feature 1 ((Obstacle_new ())\<lparr>o_feature_history := [stored_feature 2 1, stored_feature 1 0],
        o_kf_lane_tracker_map := [''lane'' \<mapsto> ()]\<rparr>) = Inr (1, stored_feature 1 0)
   \<and> latest_feature ((Obstacle_new ())\<lparr>o_feature_history := [stored_feature 2 1, stored_feature 1 0],
        o_kf_lane_tracker_map := [''lane'' \<mapsto> ()]\<rparr>) = Inr (stored_feature 2 1)
   \<and> mutable_latest_feature ((Obstacle_new ())\<lparr>o_feature_history := [stored_feature 2 1, stored_feature 1 0],
        o_kf_lane_tracker_map := [''lane'' \<mapsto> ()]\<rparr>) = Inr (0, stored_feature 2 1)
   \<and> kf_lane_tracker ''lane'' ((Obstacle_new ())\<lparr>o_feature_history := [stored_feature 2 1, stored_feature 1 0],
        o_kf_lane_tracker_map := [''lane'' \<mapsto> ()]\<rparr>) = Inr ()"
  using C8_accessors_check_their_preconditions [of "()" "Obstacle_new ()" 0 "''lane''" "()"]
    C8_accessors_check_their_preconditions [of "()"
      "(Obstacle_new ())\<lparr>o_feature_history := [stored_feature 2 1, stored_feature 1 0],
        o_kf_lane_tracker_map := [''lane'' \<mapsto> ()]\<rparr>" 1 "''lane''" "()"]
  by (simp add: history_size_def Obstacle_new_def)

text \<open>
  C9 (the claim: every public operation, the lane-tracker lookup included, holds the
  mutex for its whole duration). While another thread owns the mutex, \<open>kf_lane_tracker\<close>
  runs and returns; each of the other public functions waits.
\<close>

theorem C9_lane_tracker_lookup_takes_no_lock:
  "kf_lane_tracker_call lane_id True s = Some (kf_lane_tracker lane_id s, s)
   \<and> id_call True s = None \<and> timestamp_call True s = None
   \<and> feature_call i True s = None \<and> mutable_feature_call i True s = None
   \<and> latest_feature_call True s = None \<and> mutable_latest_feature_call True s = None
   \<and> history_size_call True s = None \<and> Insert_call E po t True s = None"
  by (simp add: kf_lane_tracker_call_def lock_guard_def id_call_def timestamp_call_def
      feature_call_def mutable_feature_call_def latest_feature_call_def
      mutable_latest_feature_call_def history_size_call_def Insert_call_def)

subsection \<open>Claims about validation\<close>

text \<open>
  C2 (the claim: an ingestion that aborts at the freshness gate, at the id or at the type
  leaves the whole object as it was; in particular an unbound object whose detection has an
  id and no type stays unbound). Counterexample: \<open>SetId\<close> has stored the id in \<open>id_\<close>
  before \<open>SetType\<close> finds that the type is missing. A fresh object (id \<open>-1\<close>) given a
  detection with id 7 and no type leaves through the failed \<open>SetType\<close> with id 7.
\<close>

theorem C2_counterexample_missing_type_binds_id:
  "fst (Insert_run example_env (detection (Some 7) None (Some 1)) 1 (Obstacle_new ()))
     = SetType_failed
   \<and> Obstacle_id (Obstacle_new ()) = - 1
   \<and> Obstacle_id (Insert example_env (detection (Some 7) None (Some 1)) 1 (Obstacle_new ())) = 7
   \<and> Insert example_env (detection (Some 7) None (Some 1)) 1 (Obstacle_new ())
       \<noteq> Obstacle_new ()"
proof -
  have e: "fst (Insert_run example_env (detection (Some 7) None (Some 1)) 1 (Obstacle_new ()))
     = SetType_failed"
    by (simp add: Insert_run_SetType_failed)
       (simp add: detection_def po_has_id_def po_has_type_def Obstacle_new_def)
  have i: "Obstacle_id (Insert example_env (detection (Some 7) None (Some 1)) 1 (Obstacle_new ())) = 7"
    by (simp add: Insert_def Insert_run_SetType_failed_state [OF e] Obstacle_id_def)
       (simp add: detection_def po_get_id_def Obstacle_new_def)
  have n: "Obstacle_id (Obstacle_new ()) = - 1"
    by (simp add: Obstacle_id_def Obstacle_new_def)
  from i n have "Insert example_env (detection (Some 7) None (Some 1)) 1 (Obstacle_new ())
       \<noteq> Obstacle_new ()"
    by auto
  with e i n show ?thesis by simp
qed

text \<open>
  C2, amended: an ingestion that leaves at the freshness gate or through a failed \<open>SetId\<close>
  (no id, or an id other than the bound one) leaves the object exactly as it was; one that
  leaves through a failed \<open>SetType\<close> leaves the type, the history and the trackers as they
  were, and the whole object when its id was non-negative before the call.
\<close>

theorem C2_aborts_leave_state:
  "(fst (Insert_run E po t s) = Older_frame \<longrightarrow> Insert E po t s = s)
   \<and> (fst (Insert_run E po t s) = SetId_failed \<longrightarrow> Insert E po t s = s)
   \<and> (fst (Insert_run E po t s) = SetType_failed \<longrightarrow>
        o_type (Insert E po t s) = o_type s
        \<and> o_feature_history (Insert E po t s) = o_feature_history s
        \<and> o_kf_motion_tracker (Insert E po t s) = o_kf_motion_tracker s
        \<and> o_is_motion_tracker_enabled (Insert E po t s) = o_is_motion_tracker_enabled s
        \<and> o_kf_lane_tracker_map (Insert E po t s) = o_kf_lane_tracker_map s
        \<and> (0 \<le> o_id s \<longrightarrow> Insert E po t s = s))"
proof (intro conjI impI)
  assume "fst (Insert_run E po t s) = Older_frame"
  then show "Insert E po t s = s"
    by (simp add: Insert_def Insert_run_Older_state)
next
  assume "fst (Insert_run E po t s) = SetId_failed"
  then show "Insert E po t s = s"
    by (simp add: Insert_def Insert_run_SetId_failed_state)
next
  assume a: "fst (Insert_run E po t s) = SetType_failed"
  have st: "Insert E po t s = (if o_id s < 0 then s\<lparr>o_id := po_get_id po\<rparr> else s)"
    by (simp add: Insert_def Insert_run_SetType_failed_state [OF a])
  show "o_type (Insert E po t s) = o_type s" by (simp add: st)
  show "o_feature_history (Insert E po t s) = o_feature_history s" by (simp add: st)
  show "o_kf_motion_tracker (Insert E po t s) = o_kf_motion_tracker s" by (simp add: st)
  show "o_is_motion_tracker_enabled (Insert E po t s) = o_is_motion_tracker_enabled s"
    by (simp add: st)
  show "o_kf_lane_tracker_map (Insert E po t s) = o_kf_lane_tracker_map s" by (simp add: st)
  assume "0 \<le> o_id s"
  then show "Insert E po t s = s" by (simp add: st)
qed

theorem C2_aborts_witness:
  "fst (Insert_run example_env (detection (Some 7) (Some VEHICLE) (Some 5)) 5
        (bound_obstacle 7 [stored_feature 5 0])) = Older_frame
   \<and> Insert example_env (detection (Some 7) (Some VEHICLE) (Some 5)) 5
        (bound_obstacle 7 [stored_feature 5 0]) = bound_obstacle 7 [stored_feature 5 0]
   \<and> fst (Insert_run example_env (detection (Some 8) (Some VEHICLE) (Some 6)) 6
        (bound_obstacle 7 [stored_feature 5 0])) = SetId_failed
   \<and> Insert example_env (detection (Some 8) (Some VEHICLE) (Some 6)) 6
        (bound_obstacle 7 [stored_feature 5 0]) = bound_obstacle 7 [stored_feature 5 0]
   \<and> fst (Insert_run example_env (detection (Some 7) None (Some 6)) 6
        (bound_obstacle 7 [stored_feature 5 0])) = SetType_failed
   \<and> 0 \<le> o_id (bound_obstacle 7 [stored_feature 5 0])
   \<and> Insert example_env (detection (Some 7) None (Some 6)) 6
        (bound_obstacle 7 [stored_feature 5 0]) = bound_obstacle 7 [stored_feature 5 0]"
proof -
  let ?s = "bound_obstacle 7 [stored_feature 5 0]"
  have h: "o_feature_history ?s = [stored_feature 5 0]" "o_id ?s = 7"
    by (simp_all add: bound_obstacle_def)
  have ts: "feature_timestamp (stored_feature 5 0) = 5"
    by (simp add: stored_feature_def feature_timestamp_def)
  have e1: "fst (Insert_run example_env (detection (Some 7) (Some VEHICLE) (Some 5)) 5 ?s)
      = Older_frame"
    by (simp add: Insert_run_Older h ts)
  have e2: "fst (Insert_run example_env (detection (Some 8) (Some VEHICLE) (Some 6)) 6 ?s)
      = SetId_failed"
    by (simp add: Insert_run_SetId_failed h ts)
       (simp add: detection_def po_has_id_def po_get_id_def)
  have e3: "fst (Insert_run example_env (detection (Some 7) None (Some 6)) 6 ?s)
      = SetType_failed"
    by (simp add: Insert_run_SetType_failed h ts)
       (simp add: detection_def po_has_id_def po_get_id_def po_has_type_def)
  show ?thesis
    using e1 e2 e3 h(2)
      C2_aborts_leave_state [of example_env "detection (Some 7) (Some VEHICLE) (Some 5)" 5 ?s]
      C2_aborts_leave_state [of example_env "detection (Some 8) (Some VEHICLE) (Some 6)" 6 ?s]
      C2_aborts_leave_state [of example_env "detection (Some 7) None (Some 6)" 6 ?s]
    by simp
qed

text \<open>
  C3 (the claim: the id is assigned once, on the first successful ingestion, and never
  changes afterwards). Counterexample: \<open>SetId\<close> takes every negative \<open>id_\<close> for unbound. A
  fresh object accepts a detection with id \<open>-5\<close> and reports id \<open>-5\<close>; it then accepts a
  detection with id 3 and reports id 3.
\<close>

theorem C3_counterexample_negative_id_rebinds:
  "accepted (fst (Insert_run example_env (detection (Some (- 5)) (Some VEHICLE) (Some 1)) 1
        (Obstacle_new ())))
   \<and> Obstacle_id (Insert example_env (detection (Some (- 5)) (Some VEHICLE) (Some 1)) 1
        (Obstacle_new ())) = - 5
   \<and> accepted (fst (Insert_run example_env (detection (Some 3) (Some VEHICLE) (Some 2)) 2
        (Insert example_env (detection (Some (- 5)) (Some VEHICLE) (Some 1)) 1
          (Obstacle_new ()))))
   \<and> Obstacle_id (Insert example_env (detection (Some 3) (Some VEHICLE) (Some 2)) 2
        (Insert example_env (detection (Some (- 5)) (Some VEHICLE) (Some 1)) 1
          (Obstacle_new ()))) = 3"
proof -
  let ?s1 = "Insert example_env (detection (Some (- 5)) (Some VEHICLE) (Some 1)) 1
          (Obstacle_new ())"
  have a1: "accepted (fst (Insert_run example_env
      (detection (Some (- 5)) (Some VEHICLE) (Some 1)) 1 (Obstacle_new ())))"
    by (simp add: Insert_run_accepted)
       (simp add: detection_def po_has_id_def po_has_type_def Obstacle_new_def)
  have s1: "?s1 = (Obstacle_new ())\<lparr>o_id := - 5, o_type := VEHICLE\<rparr>"
    by (simp add: Insert_def Insert_run_accepted_state [OF a1])
       (simp add: detection_def po_get_id_def po_get_type_def Obstacle_new_def)
  have a2: "accepted (fst (Insert_run example_env
      (detection (Some 3) (Some VEHICLE) (Some 2)) 2 ?s1))"
    by (simp add: Insert_run_accepted s1)
       (simp add: detection_def po_has_id_def po_has_type_def Obstacle_new_def)
  have "o_id (snd (Insert_run example_env (detection (Some 3) (Some VEHICLE) (Some 2)) 2 ?s1))
      = po_get_id (detection (Some 3) (Some VEHICLE) (Some 2))"
    unfolding Insert_run_accepted_state [OF a2] by (simp add: s1)
  then have s2:
    "o_id (Insert example_env (detection (Some 3) (Some VEHICLE) (Some 2)) 2 ?s1) = 3"
    unfolding Insert_def [of _ _ 2] by (simp add: detection_def po_get_id_def)
  show ?thesis
    using a1 a2 s2 by (simp add: Obstacle_id_def s1)
qed

text \<open>
  C3, amended: every successful ingestion leaves the id of the object equal to the id of
  the detection, so the first successful ingestion binds it; when that id is non-negative
  it stays through every later sequence of ingestions. Once the id of the object is
  non-negative, no ingestion and no sequence of ingestions changes it, and a detection
  that carries another id is not accepted and leaves the object exactly as it was. An
  ingestion changes the id only while it is negative, and then to the id of the detection.
\<close>

theorem C3_bound_id_is_kept:
  "(accepted (fst (Insert_run E po t s)) \<longrightarrow>
      o_id (Insert E po t s) = po_get_id po
      \<and> (0 \<le> po_get_id po \<longrightarrow>
           o_id (Insert_all E inputs (Insert E po t s)) = po_get_id po))
   \<and> (0 \<le> o_id s \<longrightarrow>
      o_id (Insert E po t s) = o_id s
      \<and> o_id (Insert_all E inputs s) = o_id s
      \<and> (po_has_id po \<and> po_get_id po \<noteq> o_id s \<longrightarrow>
           \<not> accepted (fst (Insert_run E po t s)) \<and> Insert E po t s = s))
   \<and> (o_id (Insert E po t s) \<noteq> o_id s \<longrightarrow>
        o_id s < 0 \<and> po_has_id po \<and> o_id (Insert E po t s) = po_get_id po)"
proof (intro conjI impI)
  assume a: "accepted (fst (Insert_run E po t s))"
  have st: "Insert E po t s =
       (if o_id s < 0 then s\<lparr>o_id := po_get_id po, o_type := po_get_type po\<rparr>
        else s\<lparr>o_type := po_get_type po\<rparr>)"
    unfolding Insert_def by (rule Insert_run_accepted_state [OF a])
  from a have "o_id s < 0 \<or> o_id s = po_get_id po"
    by (simp add: Insert_run_accepted)
  then show i: "o_id (Insert E po t s) = po_get_id po"
    by (auto simp add: st)
  assume "0 \<le> po_get_id po"
  with i have "0 \<le> o_id (Insert E po t s)" by simp
  from Insert_all_bound_id [OF this] i
  show "o_id (Insert_all E inputs (Insert E po t s)) = po_get_id po" by simp
next
  assume b: "0 \<le> o_id s"
  show "o_id (Insert E po t s) = o_id s" using b by (rule Insert_bound_id)
  show "o_id (Insert_all E inputs s) = o_id s" using b by (rule Insert_all_bound_id)
  assume d: "po_has_id po \<and> po_get_id po \<noteq> o_id s"
  show na: "\<not> accepted (fst (Insert_run E po t s))"
    using b d by (auto simp add: Insert_run_accepted)
  have "fst (Insert_run E po t s) = Older_frame \<or> fst (Insert_run E po t s) = SetId_failed"
    using b d by (auto simp add: Insert_run_Older Insert_run_SetId_failed)
  then show "Insert E po t s = s"
    by (auto simp add: Insert_def Insert_run_Older_state Insert_run_SetId_failed_state)
next
  assume c: "o_id (Insert E po t s) \<noteq> o_id s"
  show "o_id s < 0"
  proof (rule ccontr)
    assume "\<not> o_id s < 0"
    then have "0 \<le> o_id s" by simp
    from Insert_bound_id [OF this] c show False by simp
  qed
  from c show "po_has_id po"
    by (auto simp add: Insert_def Insert_run_def SetId_def SetType_def Let_def
        split: prod.splits ErrorCode.splits if_splits)
  from c show "o_id (Insert E po t s) = po_get_id po"
    by (auto simp add: Insert_def Insert_run_def SetId_def SetType_def Let_def
        split: prod.splits ErrorCode.splits if_splits)
qed

theorem C3_bound_id_witness:
  "accepted (fst (Insert_run example_env (detection (Some 7) (Some VEHICLE) (Some 1)) 1
        (Obstacle_new ())))
   \<and> Obstacle_id (Obstacle_new ()) = - 1
   \<and> o_id (Insert example_env (detection (Some 7) (Some VEHICLE) (Some 1)) 1 (Obstacle_new ()))
       = 7
   \<and> o_id (Insert_all example_env
        [(detection (Some 8) (Some VEHICLE) (Some 2), 2),
         (detection (Some 7) (Some VEHICLE) (Some 3), 3)]
        (Insert example_env (detection (Some 7) (Some VEHICLE) (Some 1)) 1 (Obstacle_new ())))
       = 7
   \<and> 0 \<le> o_id (bound_obstacle 7 [])
   \<and> o_id (Insert example_env (detection (Some 8) (Some VEHICLE) (Some 1)) 1
        (bound_obstacle 7 [])) = 7
   \<and> o_id (Insert_all example_env
        [(detection (Some 8) (Some VEHICLE) (Some 1), 1),
         (detection (Some 7) (Some VEHICLE) (Some 2), 2)] (bound_obstacle 7 [])) = 7
   \<and> po_has_id (detection (Some 8) (Some VEHICLE) (Some 1))
   \<and> po_get_id (detection (Some 8) (Some VEHICLE) (Some 1)) \<noteq> o_id (bound_obstacle 7 [])
   \<and> \<not> accepted (fst (Insert_run example_env (detection (Some 8) (Some VEHICLE) (Some 1)) 1
        (bound_obstacle 7 [])))
   \<and> Insert example_env (detection (Some 8) (Some VEHICLE) (Some 1)) 1 (bound_obstacle 7 [])
       = bound_obstacle 7 []
   \<and> o_id (Insert example_env (detection (Some 7) (Some VEHICLE) (Some 1)) 1 (Obstacle_new ()))
       \<noteq> o_id (Obstacle_new ())
   \<and> o_id (Obstacle_new ()) < 0
   \<and> po_has_id (detection (Some 7) (Some VEHICLE) (Some 1))"
proof -
  have b: "o_id (bound_obstacle 7 []) = 7"
    by (simp add: bound_obstacle_def)
  have d: "po_has_id (detection (Some 8) (Some VEHICLE) (Some 1))"
    "po_has_id (detection (Some 7) (Some VEHICLE) (Some 1))"
    "po_get_id (detection (Some 8) (Some VEHICLE) (Some 1)) = 8"
    "po_get_id (detection (Some 7) (Some VEHICLE) (Some 1)) = 7"
    by (simp_all add: detection_def po_has_id_def po_get_id_def)
  have a: "accepted (fst (Insert_run example_env
      (detection (Some 7) (Some VEHICLE) (Some 1)) 1 (Obstacle_new ())))"
    by (simp add: Insert_run_accepted)
       (simp add: detection_def po_has_id_def po_has_type_def Obstacle_new_def)
  have f: "o_id (Obstacle_new ()) = - 1" "Obstacle_id (Obstacle_new ()) = - 1"
    by (simp_all add: Obstacle_new_def Obstacle_id_def)
  show ?thesis
    using a
      C3_bound_id_is_kept [of example_env
        "detection (Some 7) (Some VEHICLE) (Some 1)" 1 "Obstacle_new ()"
        "[(detection (Some 8) (Some VEHICLE) (Some 2), 2),
          (detection (Some 7) (Some VEHICLE) (Some 3), 3)]"]
      C3_bound_id_is_kept [of example_env
        "detection (Some 8) (Some VEHICLE) (Some 1)" 1 "bound_obstacle 7 []"
        "[(detection (Some 8) (Some VEHICLE) (Some 1), 1),
          (detection (Some 7) (Some VEHICLE) (Some 2), 2)]"]
    by (simp add: b d f del: Insert_all.simps)
qed

text \<open>
  C5 (the claim: the freshness gate compares the resolved timestamp, the detection's own
  when present and positive, else the caller's). Counterexample: the gate reads the
  caller's \<open>timestamp\<close> argument only. With a front feature at time 5, a detection stamped
  3 and ingested at 10 resolves to 3 and is accepted; a detection stamped 10 and ingested
  at 4 resolves to 10 and is turned away as an older frame.
\<close>

theorem C5_counterexample_gate_reads_ingestion_timestamp:
  "o_feature_history (bound_obstacle 7 [stored_feature 5 0]) \<noteq> []
   \<and> feature_timestamp (hd (o_feature_history (bound_obstacle 7 [stored_feature 5 0]))) = 5
   \<and> feature_timestamp (SetTimestamp (detection (Some 7) (Some VEHICLE) (Some 3)) 10 Feature_new) = 3
   \<and> accepted (fst (Insert_run example_env (detection (Some 7) (Some VEHICLE) (Some 3)) 10
        (bound_obstacle 7 [stored_feature 5 0])))
   \<and> feature_timestamp (SetTimestamp (detection (Some 7) (Some VEHICLE) (Some 10)) 4 Feature_new) = 10
   \<and> fst (Insert_run example_env (detection (Some 7) (Some VEHICLE) (Some 10)) 4
        (bound_obstacle 7 [stored_feature 5 0])) = Older_frame"
proof -
  let ?s = "bound_obstacle 7 [stored_feature 5 0]"
  have h: "o_feature_history ?s = [stored_feature 5 0]" "o_id ?s = 7"
    by (simp_all add: bound_obstacle_def)
  have ts: "feature_timestamp (stored_feature 5 0) = 5"
    by (simp add: stored_feature_def feature_timestamp_def)
  have r1: "feature_timestamp
      (SetTimestamp (detection (Some 7) (Some VEHICLE) (Some 3)) 10 Feature_new) = 3"
    by (simp add: SetTimestamp_def detection_def po_has_timestamp_def po_get_timestamp_def
        set_timestamp_def feature_timestamp_def)
  have r2: "feature_timestamp
      (SetTimestamp (detection (Some 7) (Some VEHICLE) (Some 10)) 4 Feature_new) = 10"
    by (simp add: SetTimestamp_def detection_def po_has_timestamp_def po_get_timestamp_def
        set_timestamp_def feature_timestamp_def)
  have a: "accepted (fst (Insert_run example_env
      (detection (Some 7) (Some VEHICLE) (Some 3)) 10 ?s))"
    by (simp add: Insert_run_accepted h ts)
       (simp add: detection_def po_has_id_def po_get_id_def po_has_type_def)
  have o: "fst (Insert_run example_env (detection (Some 7) (Some VEHICLE) (Some 10)) 4 ?s)
      = Older_frame"
    by (simp add: Insert_run_Older h ts)
  show ?thesis
    using r1 r2 a o by (simp add: h ts)
qed

text \<open>
  C5, amended: the gate compares the caller-supplied ingestion timestamp, whatever the
  detection carries. If the history is not empty and that timestamp is at most the front
  feature's, the ingestion leaves as an older frame and the object is unchanged; otherwise
  it does not leave at the gate.
\<close>

theorem C5_gate_compares_ingestion_timestamp:
  "(if o_feature_history s \<noteq> []
       \<and> timestamp \<le> feature_timestamp (hd (o_feature_history s))
    then Insert_run E po timestamp s = (Older_frame, s)
    else fst (Insert_run E po timestamp s) \<noteq> Older_frame)"
proof (cases "o_feature_history s \<noteq> []
       \<and> timestamp \<le> feature_timestamp (hd (o_feature_history s))")
  case True
  then have "fst (Insert_run E po timestamp s) = Older_frame"
    by (simp add: Insert_run_Older)
  moreover from this have "snd (Insert_run E po timestamp s) = s"
    by (rule Insert_run_Older_state)
  ultimately have "Insert_run E po timestamp s = (Older_frame, s)"
    by (simp add: prod_eq_iff)
  with True show ?thesis by simp
next
  case False
  then have "fst (Insert_run E po timestamp s) \<noteq> Older_frame"
    by (simp add: Insert_run_Older)
  with False show ?thesis by auto
qed

subsection \<open>The acceleration estimator\<close>

text \<open>In exact arithmetic the damping factor lies strictly between 0 and 1/2.\<close>

lemma Damp_pos: "0 < Damp x sigma"
proof -
  have "0 < 1 + exp (1 / (\<bar>x\<bar> + sigma))"
    by (simp add: add_pos_pos)
  then show ?thesis by (simp add: Damp_def)
qed

lemma Damp_less_half: assumes "0 < sigma" shows "Damp x sigma < 1 / 2"
proof -
  define d where "d = 1 + exp (1 / (\<bar>x\<bar> + sigma))"
  from assms have "0 < \<bar>x\<bar> + sigma" by simp
  then have "0 < 1 / (\<bar>x\<bar> + sigma)" by simp
  then have "1 < exp (1 / (\<bar>x\<bar> + sigma))" by simp
  then have "2 < d" by (simp add: d_def)
  then have "1 / d < 1 / 2" by (simp add: field_simps)
  then show ?thesis by (simp add: Damp_def d_def)
qed

lemma hypot_hypot: "hypot (hypot a b) c = sqrt (a\<^sup>2 + b\<^sup>2 + c\<^sup>2)"
  by (simp add: hypot_def)

lemma acceleration_set_xyz:
  "feature_acceleration
     (set_acc m (mutable_acceleration (set_z c)
        (mutable_acceleration (set_y b) (mutable_acceleration (set_x a) ft))))
   = \<lparr>p_x = Some a, p_y = Some b, p_z = Some c\<rparr>"
  by (simp add: feature_acceleration_def set_acc_def mutable_acceleration_def
      set_x_def set_y_def set_z_def Point3D_new_def split: option.splits)

lemma acc_set_acc:
  "feature_acc (set_acc m ft) = m"
  by (simp add: feature_acc_def set_acc_def)

lemma SetAcceleration_x:
  "get_x (feature_acceleration (SetAcceleration E s ft)) =
     (if o_feature_history s \<noteq> []
         \<and> DoubleCompare E (feature_timestamp ft)
             (feature_timestamp (hd (o_feature_history s))) = 1
      then Clamp ((get_x (feature_velocity ft) - get_x (feature_velocity (hd (o_feature_history s))))
                  / (feature_timestamp ft - feature_timestamp (hd (o_feature_history s)))
                  * Damp (get_x (feature_velocity ft)) 0.001)
             (FLAGS_min_acc E) (FLAGS_max_acc E)
      else 0)"
  by (simp add: SetAcceleration_def Let_def acceleration_set_xyz get_x_def)

lemma SetAcceleration_y:
  "get_y (feature_acceleration (SetAcceleration E s ft)) =
     (if o_feature_history s \<noteq> []
         \<and> DoubleCompare E (feature_timestamp ft)
             (feature_timestamp (hd (o_feature_history s))) = 1
      then Clamp ((get_y (feature_velocity ft) - get_y (feature_velocity (hd (o_feature_history s))))
                  / (feature_timestamp ft - feature_timestamp (hd (o_feature_history s)))
                  * Damp (get_y (feature_velocity ft)) 0.001)
             (FLAGS_min_acc E) (FLAGS_max_acc E)
      else 0)"
  by (simp add: SetAcceleration_def Let_def acceleration_set_xyz get_y_def)

lemma SetAcceleration_z:
  "get_z (feature_acceleration (SetAcceleration E s ft)) =
     (if o_feature_history s \<noteq> []
         \<and> DoubleCompare E (feature_timestamp ft)
             (feature_timestamp (hd (o_feature_history s))) = 1
      then Clamp ((get_z (feature_velocity ft) - get_z (feature_velocity (hd (o_feature_history s))))
                  / (feature_timestamp ft - feature_timestamp (hd (o_feature_history s)))
                  * Damp (get_z (feature_velocity ft)) 0.001)
             (FLAGS_min_acc E) (FLAGS_max_acc E)
      else 0)"
  by (simp add: SetAcceleration_def Let_def acceleration_set_xyz get_z_def)

lemma SetAcceleration_acc:
  "feature_acc (SetAcceleration E s ft) =
     sqrt ((get_x (feature_acceleration (SetAcceleration E s ft)))\<^sup>2
         + (get_y (feature_acceleration (SetAcceleration E s ft)))\<^sup>2
         + (get_z (feature_acceleration (SetAcceleration E s ft)))\<^sup>2)"
  by (simp add: SetAcceleration_def Let_def acceleration_set_xyz acc_set_acc hypot_hypot
      get_x_def get_y_def get_z_def split: prod.splits)

text \<open>
  C6: when the history is empty, or \<open>DoubleCompare\<close> (the tolerant comparison of
  math_utils.h, a parameter here) does not answer 1 for the feature's timestamp against the
  front feature's, the three components of the acceleration are zero; otherwise each is
  the finite difference of the velocities over the difference of the timestamps, times
  \<open>1 / (1 + exp (1 / (|v| + 0.001)))\<close> of the current velocity on that axis, clamped to
  the two flags. In both cases the stored magnitude is the Euclidean norm of the three
  components.
\<close>

theorem C6_acceleration_estimator:
  "(if o_feature_history s = []
       \<or> DoubleCompare E (feature_timestamp ft)
            (feature_timestamp (hd (o_feature_history s))) \<noteq> 1
    then get_x (feature_acceleration (SetAcceleration E s ft)) = 0
       \<and> get_y (feature_acceleration (SetAcceleration E s ft)) = 0
       \<and> get_z (feature_acceleration (SetAcceleration E s ft)) = 0
    else get_x (feature_acceleration (SetAcceleration E s ft)) =
           Clamp ((get_x (feature_velocity ft) - get_x (feature_velocity (hd (o_feature_history s))))
                  / (feature_timestamp ft - feature_timestamp (hd (o_feature_history s)))
                  * (1 / (1 + exp (1 / (\<bar>get_x (feature_velocity ft)\<bar> + 0.001)))))
             (FLAGS_min_acc E) (FLAGS_max_acc E)
       \<and> get_y (feature_acceleration (SetAcceleration E s ft)) =
           Clamp ((get_y (feature_velocity ft) - get_y (feature_velocity (hd (o_feature_history s))))
                  / (feature_timestamp ft - feature_timestamp (hd (o_feature_history s)))
                  * (1 / (1 + exp (1 / (\<bar>get_y (feature_velocity ft)\<bar> + 0.001)))))
             (FLAGS_min_acc E) (FLAGS_max_acc E)
       \<and> get_z (feature_acceleration (SetAcceleration E s ft)) =
           Clamp ((get_z (feature_velocity ft) - get_z (feature_velocity (hd (o_feature_history s))))
                  / (feature_timestamp ft - feature_timestamp (hd (o_feature_history s)))
                  * (1 / (1 + exp (1 / (\<bar>get_z (feature_velocity ft)\<bar> + 0.001)))))
             (FLAGS_min_acc E) (FLAGS_max_acc E))
   \<and> feature_acc (SetAcceleration E s ft) =
       sqrt ((get_x (feature_acceleration (SetAcceleration E s ft)))\<^sup>2
           + (get_y (feature_acceleration (SetAcceleration E s ft)))\<^sup>2
           + (get_z (feature_acceleration (SetAcceleration E s ft)))\<^sup>2)"
proof (rule conjI)
  show "feature_acc (SetAcceleration E s ft) =
       sqrt ((get_x (feature_acceleration (SetAcceleration E s ft)))\<^sup>2
           + (get_y (feature_acceleration (SetAcceleration E s ft)))\<^sup>2
           + (get_z (feature_acceleration (SetAcceleration E s ft)))\<^sup>2)"
    by (rule SetAcceleration_acc)
next
  show "(if o_feature_history s = []
       \<or> DoubleCompare E (feature_timestamp ft)
            (feature_timestamp (hd (o_feature_history s))) \<noteq> 1
    then get_x (feature_acceleration (SetAcceleration E s ft)) = 0
       \<and> get_y (feature_acceleration (SetAcceleration E s ft)) = 0
       \<and> get_z (feature_acceleration (SetAcceleration E s ft)) = 0
    else get_x (feature_acceleration (SetAcceleration E s ft)) =
           Clamp ((get_x (feature_velocity ft) - get_x (feature_velocity (hd (o_feature_history s))))
                  / (feature_timestamp ft - feature_timestamp (hd (o_feature_history s)))
                  * (1 / (1 + exp (1 / (\<bar>get_x (feature_velocity ft)\<bar> + 0.001)))))
             (FLAGS_min_acc E) (FLAGS_max_acc E)
       \<and> get_y (feature_acceleration (SetAcceleration E s ft)) =
           Clamp ((get_y (feature_velocity ft) - get_y (feature_velocity (hd (o_feature_history s))))
                  / (feature_timestamp ft - feature_timestamp (hd (o_feature_history s)))
                  * (1 / (1 + exp (1 / (\<bar>get_y (feature_velocity ft)\<bar> + 0.001)))))
             (FLAGS_min_acc E) (FLAGS_max_acc E)
       \<and> get_z (feature_acceleration (SetAcceleration E s ft)) =
           Clamp ((get_z (feature_velocity ft) - get_z (feature_velocity (hd (o_feature_history s))))
                  / (feature_timestamp ft - feature_timestamp (hd (o_feature_history s)))
                  * (1 / (1 + exp (1 / (\<bar>get_z (feature_velocity ft)\<bar> + 0.001)))))
             (FLAGS_min_acc E) (FLAGS_max_acc E))"
    by (simp add: SetAcceleration_x SetAcceleration_y SetAcceleration_z Damp_def)
qed

theorem C6_estimator_witness:
  "get_x (feature_acceleration (SetAcceleration example_env
       (bound_obstacle 7 [stored_feature 1 0]) (stored_feature 2 2)))
     = Clamp (2 * (1 / (1 + exp (1 / 2.001)))) (- 4) 4
   \<and> get_y (feature_acceleration (SetAcceleration example_env
       (bound_obstacle 7 [stored_feature 1 0]) (stored_feature 2 2))) = 0
   \<and> get_z (feature_acceleration (SetAcceleration example_env
       (bound_obstacle 7 [stored_feature 1 0]) (stored_feature 2 2))) = 0
   \<and> feature_acc (SetAcceleration example_env
       (bound_obstacle 7 [stored_feature 1 0]) (stored_feature 2 2))
     = \<bar>Clamp (2 * (1 / (1 + exp (1 / 2.001)))) (- 4) 4\<bar>
   \<and> get_x (feature_acceleration (SetAcceleration example_env
       (bound_obstacle 7 []) (stored_feature 2 2))) = 0
   \<and> get_x (feature_acceleration (SetAcceleration example_env
       (bound_obstacle 7 [stored_feature 2 0]) (stored_feature 2 2))) = 0"
proof -
  have h: "o_feature_history (bound_obstacle 7 [stored_feature 1 0]) = [stored_feature 1 0]"
    "o_feature_history (bound_obstacle 7 []) = []"
    "o_feature_history (bound_obstacle 7 [stored_feature 2 0]) = [stored_feature 2 0]"
    by (simp_all add: bound_obstacle_def)
  have g: "\<And>t v. feature_timestamp (stored_feature t v) = t"
    "\<And>t v. get_x (feature_velocity (stored_feature t v)) = v"
    "\<And>t v. get_y (feature_velocity (stored_feature t v)) = 0"
    "\<And>t v. get_z (feature_velocity (stored_feature t v)) = 0"
    by (simp_all add: stored_feature_def feature_timestamp_def feature_velocity_def
        along_x_def get_x_def get_y_def get_z_def)
  have e: "DoubleCompare example_env 2 1 = 1" "DoubleCompare example_env 2 2 = 0"
    "FLAGS_min_acc example_env = - 4" "FLAGS_max_acc example_env = 4"
    by (simp_all add: example_env_def)
  have c0: "Clamp 0 (- 4) 4 = 0"
    by (simp add: Clamp_def)
  show ?thesis
    using C6_acceleration_estimator [of "bound_obstacle 7 [stored_feature 1 0]" example_env
        "stored_feature 2 2"]
      C6_acceleration_estimator [of "bound_obstacle 7 []" example_env "stored_feature 2 2"]
      C6_acceleration_estimator [of "bound_obstacle 7 [stored_feature 2 0]" example_env
        "stored_feature 2 2"]
    by (simp add: h g e c0)
qed

subsection \<open>The acceleration estimator on doubles\<close>

text \<open>
  The exponential of 1000 is beyond the largest double, so the damping factor of a zero
  velocity is exactly zero; where nothing overflows the factor is the one of exact
  arithmetic.
\<close>

lemma DBL_MAX_ge: "1000 \<le> DBL_MAX"
  by (simp add: DBL_MAX_def)

lemma exp_1000_overflows: "DBL_MAX < exp (1000::real)"
proof -
  have "(5::real) \<le> 1 + 2 + 2\<^sup>2 / 2" by simp
  also have "\<dots> \<le> exp (2::real)"
    by (rule exp_lower_Taylor_quadratic) simp
  finally have "(5::real) ^ 500 \<le> exp 2 ^ 500"
    by (intro power_mono) simp_all
  also have "exp (2::real) ^ 500 = exp 1000"
    by (simp add: exp_of_nat_mult [symmetric])
  finally have "(5::real) ^ 500 \<le> exp 1000" .
  moreover have "DBL_MAX < (5::real) ^ 500"
    by (simp add: DBL_MAX_def)
  ultimately show ?thesis by simp
qed

lemma Damp_d_zero: "Damp_d (Fin 0) (Fin 0.001) = Fin 0"
  using exp_1000_overflows DBL_MAX_ge
  by (simp add: Damp_d_def overflow_def)

lemma Damp_d_inf: "Damp_d PInf (Fin 0.001) = Fin (1 / 2)" "Damp_d NInf (Fin 0.001) = Fin (1 / 2)"
  using DBL_MAX_ge by (simp_all add: Damp_d_def overflow_def)

lemma overflow_Fin: "- DBL_MAX \<le> r \<Longrightarrow> r \<le> DBL_MAX \<Longrightarrow> overflow r = Fin r"
  by (simp add: overflow_def)

lemma overflow_Fin_nonneg: "0 \<le> r \<Longrightarrow> r \<le> DBL_MAX \<Longrightarrow> overflow r = Fin r"
  using DBL_MAX_ge by (simp add: overflow_def)

lemma overflow_PInf: "DBL_MAX < r \<Longrightarrow> overflow r = PInf"
  by (simp add: overflow_def)

lemma Damp_d_tail:
  assumes "0 \<le> t"
  shows "\<exists>d. div_d (Fin 1) (add_d (Fin 1) (exp_d (Fin t))) = Fin d \<and> 0 \<le> d \<and> d \<le> 1 / 2"
proof -
  have e: "1 \<le> exp t" using assms by simp
  have m: "0 < DBL_MAX" using DBL_MAX_ge by simp
  show ?thesis
  proof (cases "DBL_MAX < 1 + exp t")
    case True
    have "add_d (Fin 1) (exp_d (Fin t)) = PInf"
    proof (cases "DBL_MAX < exp t")
      case True
      then show ?thesis by (simp add: overflow_PInf)
    next
      case False
      with e m have "overflow (exp t) = Fin (exp t)" by (intro overflow_Fin_nonneg) simp_all
      with \<open>DBL_MAX < 1 + exp t\<close> show ?thesis by (simp add: overflow_PInf)
    qed
    then show ?thesis by simp
  next
    case False
    with e m have 1: "overflow (exp t) = Fin (exp t)" by (intro overflow_Fin_nonneg) simp_all
    from False e m have 2: "overflow (1 + exp t) = Fin (1 + exp t)"
      by (intro overflow_Fin_nonneg) simp_all
    from e have "2 \<le> 1 + exp t" by simp
    then have h: "1 / (1 + exp t) \<le> 1 / 2"
      using frac_le [of 1 1 2 "1 + exp t"] by simp
    have n: "0 \<le> 1 / (1 + exp t)" using e by simp
    from h n m DBL_MAX_ge have 3: "overflow (1 / (1 + exp t)) = Fin (1 / (1 + exp t))"
      by (intro overflow_Fin_nonneg) simp_all
    have "0 < 1 + exp t" by (simp add: add_pos_pos)
    then have nz: "1 + exp t \<noteq> 0" by simp
    have "div_d (Fin 1) (add_d (Fin 1) (exp_d (Fin t))) = Fin (1 / (1 + exp t))"
      by (simp add: 1 2 nz del: One_nat_def) (simp only: 3)
    with h n show ?thesis by blast
  qed
qed

lemma Damp_d_range:
  assumes "x \<noteq> NaN"
  shows "\<exists>d. Damp_d x (Fin 0.001) = Fin d \<and> 0 \<le> d \<and> d \<le> 1 / 2"
proof (cases x)
  case (Fin r)
  have m: "1000 \<le> DBL_MAX" by (rule DBL_MAX_ge)
  have p: "0 < \<bar>r\<bar> + 0.001" by simp
  show ?thesis
  proof (cases "DBL_MAX < \<bar>r\<bar> + 0.001")
    case True
    then have "div_d (Fin 1) (add_d (fabs_d x) (Fin 0.001)) = Fin 0"
      by (simp add: Fin overflow_PInf)
    with Damp_d_tail [of 0] show ?thesis by (simp add: Damp_d_def)
  next
    case False
    with p m have 1: "overflow (\<bar>r\<bar> + 0.001) = Fin (\<bar>r\<bar> + 0.001)"
      by (intro overflow_Fin_nonneg) simp_all
    have "1 / (\<bar>r\<bar> + 0.001) \<le> 1 / 0.001"
      by (intro divide_left_mono) simp_all
    with m have le: "1 / (\<bar>r\<bar> + 0.001) \<le> DBL_MAX" by simp
    have ge: "0 \<le> 1 / (\<bar>r\<bar> + 0.001)" by simp
    from le ge m have 2: "overflow (1 / (\<bar>r\<bar> + 0.001)) = Fin (1 / (\<bar>r\<bar> + 0.001))"
      by (intro overflow_Fin_nonneg) simp_all
    have nz: "\<bar>r\<bar> + 0.001 \<noteq> 0" using p by simp
    have "div_d (Fin 1) (add_d (fabs_d x) (Fin 0.001)) = Fin (1 / (\<bar>r\<bar> + 0.001))"
      unfolding Fin fabs_d.simps add_d.simps 1 div_d.simps using nz 2 by simp
    with Damp_d_tail [OF ge] show ?thesis by (simp add: Damp_d_def)
  qed
next
  case PInf
  then have "Damp_d x (Fin 0.001) = Fin (1 / 2)" using Damp_d_inf by simp
  then show ?thesis by (intro exI [of _ "1 / 2"]) simp
next
  case NInf
  then have "Damp_d x (Fin 0.001) = Fin (1 / 2)" using Damp_d_inf by simp
  then show ?thesis by (intro exI [of _ "1 / 2"]) simp
next
  case NaN
  with assms show ?thesis by simp
qed

lemma halving:
  assumes "0 \<le> d" "d \<le> 1 / 2"
  shows "less_eq_d (fabs_d (mul_d (Fin raw) (Fin d))) (div_d (fabs_d (Fin raw)) (Fin 2))"
proof -
  have m: "0 < DBL_MAX" using DBL_MAX_ge by simp
  have "\<bar>raw * d\<bar> = \<bar>raw\<bar> * d" using assms by (simp add: abs_mult)
  also have "\<dots> \<le> \<bar>raw\<bar> * (1 / 2)" using assms by (intro mult_left_mono) simp_all
  finally have h: "\<bar>raw * d\<bar> \<le> \<bar>raw\<bar> / 2" by simp
  show ?thesis
  proof (cases "DBL_MAX < \<bar>raw\<bar> / 2")
    case True
    then show ?thesis using m by (auto simp add: overflow_def)
  next
    case False
    with h have "\<bar>raw * d\<bar> \<le> DBL_MAX" by simp
    then have "\<not> DBL_MAX < raw * d" "\<not> raw * d < - DBL_MAX" by (simp_all add: abs_le_iff)
    with False h m show ?thesis by (auto simp add: overflow_def)
  qed
qed

lemma Damp_d_exact:
  assumes "\<bar>r\<bar> + 0.001 \<le> DBL_MAX" and "1 + exp (1 / (\<bar>r\<bar> + 0.001)) \<le> DBL_MAX"
  shows "Damp_d (Fin r) (Fin 0.001) = Fin (Damp r 0.001)"
proof -
  have m: "1000 \<le> DBL_MAX" by (rule DBL_MAX_ge)
  have p: "0 < \<bar>r\<bar> + 0.001" by simp
  from p assms(1) have 1: "overflow (\<bar>r\<bar> + 0.001) = Fin (\<bar>r\<bar> + 0.001)"
    by (intro overflow_Fin_nonneg) simp_all
  have "1 / (\<bar>r\<bar> + 0.001) \<le> 1 / 0.001"
    by (intro divide_left_mono) simp_all
  with m have le: "1 / (\<bar>r\<bar> + 0.001) \<le> DBL_MAX" by simp
  have ge: "0 \<le> 1 / (\<bar>r\<bar> + 0.001)" by simp
  from le ge have 2: "overflow (1 / (\<bar>r\<bar> + 0.001)) = Fin (1 / (\<bar>r\<bar> + 0.001))"
    by (intro overflow_Fin_nonneg) simp_all
  define t where "t = 1 / (\<bar>r\<bar> + 0.001)"
  have e0: "0 \<le> exp t" by simp
  from assms(2) have e1: "exp t \<le> DBL_MAX" by (simp add: t_def)
  from e0 e1 have 3: "overflow (exp t) = Fin (exp t)" by (rule overflow_Fin_nonneg)
  have s0: "0 \<le> 1 + exp t" by (simp add: add_nonneg_nonneg)
  from assms(2) have s1: "1 + exp t \<le> DBL_MAX" by (simp add: t_def)
  from s0 s1 have 4: "overflow (1 + exp t) = Fin (1 + exp t)" by (rule overflow_Fin_nonneg)
  have "0 < 1 + exp t" by (simp add: add_pos_pos)
  then have nz: "1 + exp t \<noteq> 0" and q0: "0 \<le> 1 / (1 + exp t)" by simp_all
  have "1 / (1 + exp t) \<le> 1 / 1"
    by (intro divide_left_mono) (simp_all add: add_pos_pos)
  with m have q1: "1 / (1 + exp t) \<le> DBL_MAX" by simp
  from q0 q1 have 5: "overflow (1 / (1 + exp t)) = Fin (1 / (1 + exp t))"
    by (rule overflow_Fin_nonneg)
  have nzp: "\<bar>r\<bar> + 0.001 \<noteq> 0" using p by simp
  have a: "div_d (Fin 1) (add_d (fabs_d (Fin r)) (Fin 0.001)) = Fin t"
    unfolding fabs_d.simps add_d.simps 1 div_d.simps t_def using nzp 2 by simp
  have b: "div_d (Fin 1) (add_d (Fin 1) (exp_d (Fin t))) = Fin (1 / (1 + exp t))"
    unfolding exp_d.simps 3 add_d.simps 4 div_d.simps using nz 5 by simp
  show ?thesis
    unfolding Damp_d_def a b by (simp add: Damp_def t_def)
qed












text \<open>
  C10 (the claim: the damping factor lies strictly between 0 and 1/2, so the damped
  estimate is strictly smaller in magnitude than half the raw one). Counterexample: at
  the velocity 0 the exponential overflows and the factor is exactly 0; at an infinite
  velocity it is exactly 1/2; and when the velocity on an axis has not changed (here 1
  and 1, one second apart) the raw estimate is 0 and so is the damped one.
\<close>

theorem C10_counterexample_damping_reaches_zero:
  "Damp_d (Fin 0) (Fin 0.001) = Fin 0
   \<and> \<not> less_d (Fin 0) (Damp_d (Fin 0) (Fin 0.001))
   \<and> Damp_d PInf (Fin 0.001) = Fin (1 / 2)
   \<and> \<not> less_d (Damp_d PInf (Fin 0.001)) (Fin (1 / 2))
   \<and> div_d (sub_d (Fin 1) (Fin 1)) (sub_d (Fin 2) (Fin 1)) = Fin 0
   \<and> \<not> less_d
         (fabs_d (mul_d (div_d (sub_d (Fin 1) (Fin 1)) (sub_d (Fin 2) (Fin 1)))
                    (Damp_d (Fin 1) (Fin 0.001))))
         (div_d (fabs_d (div_d (sub_d (Fin 1) (Fin 1)) (sub_d (Fin 2) (Fin 1)))) (Fin 2))"
proof -
  have m: "1000 \<le> DBL_MAX" by (rule DBL_MAX_ge)
  have raw: "div_d (sub_d (Fin 1) (Fin 1)) (sub_d (Fin 2) (Fin 1)) = Fin 0"
    using m by (simp add: overflow_def)
  obtain d where d: "Damp_d (Fin 1) (Fin 0.001) = Fin d"
    using Damp_d_range [of "Fin 1"] by auto
  have half: "div_d (fabs_d (Fin 0)) (Fin 2) = Fin 0"
    using m by (simp add: overflow_def)
  have prod: "fabs_d (mul_d (Fin 0) (Fin d)) = Fin 0"
    using m by (simp add: overflow_def)
  show ?thesis
    unfolding raw d half prod Damp_d_zero Damp_d_inf by simp
qed

text \<open>
  C10, amended: for every \<open>x\<close> that is not NaN, \<open>Damp(x, 0.001)\<close> lies between 0 and 1/2,
  both included; and for every finite raw estimate the damped estimate is at most half
  the raw one in magnitude.
\<close>

theorem C10_damping_at_most_half:
  "x \<noteq> NaN \<longrightarrow>
     less_eq_d (Fin 0) (Damp_d x (Fin 0.001))
     \<and> less_eq_d (Damp_d x (Fin 0.001)) (Fin (1 / 2))
     \<and> less_eq_d (fabs_d (mul_d (Fin raw) (Damp_d x (Fin 0.001))))
          (div_d (fabs_d (Fin raw)) (Fin 2))"
proof
  assume "x \<noteq> NaN"
  from Damp_d_range [OF this] obtain d
    where d: "Damp_d x (Fin 0.001) = Fin d" and r: "0 \<le> d" "d \<le> 1 / 2"
    by blast
  show "less_eq_d (Fin 0) (Damp_d x (Fin 0.001))
     \<and> less_eq_d (Damp_d x (Fin 0.001)) (Fin (1 / 2))
     \<and> less_eq_d (fabs_d (mul_d (Fin raw) (Damp_d x (Fin 0.001))))
          (div_d (fabs_d (Fin raw)) (Fin 2))"
    unfolding d using r halving [OF r, of raw] by simp
qed

theorem C10_damping_witness:
  "Fin 1 \<noteq> NaN
   \<and> less_eq_d (Fin 0) (Damp_d (Fin 1) (Fin 0.001))
   \<and> less_eq_d (Damp_d (Fin 1) (Fin 0.001)) (Fin (1 / 2))
   \<and> less_eq_d (fabs_d (mul_d (Fin 2) (Damp_d (Fin 1) (Fin 0.001))))
        (div_d (fabs_d (Fin 2)) (Fin 2))"
  using C10_damping_at_most_half [of "Fin 1" 2] by simp

end
